theory Spec2Isabelle
  imports Main
begin

section \<open>Python values\<close>

text \<open>
  Python's \<open>x or d\<close> evaluates to \<open>x\<close> when \<open>x\<close> is truthy and to \<open>d\<close> otherwise.
  An argument of type \<open>T | None\<close> is an option; \<open>None\<close> is falsy, and a value of \<open>T\<close>
  is falsy when it is \<open>False\<close>, \<open>0\<close>, the empty string or the empty list.
\<close>

definition py_or :: "('a \<Rightarrow> bool) \<Rightarrow> 'a option \<Rightarrow> 'a \<Rightarrow> 'a" where
  "py_or truthy v d = (case v of None \<Rightarrow> d | Some x \<Rightarrow> if truthy x then x else d)"

definition truthy_bool :: "bool \<Rightarrow> bool" where
  "truthy_bool b = b"

definition truthy_int :: "int \<Rightarrow> bool" where
  "truthy_int n = (n \<noteq> 0)"

definition truthy_seq :: "'a list \<Rightarrow> bool" where
  "truthy_seq xs = (xs \<noteq> [])"

datatype py_exception =
    ValueError string
  | TimeoutException
  | JSONDecodeError
  | AttributeError
  | TypeError

section \<open>config\_handler.py\<close>

record Debug =
  enabled :: bool
  use_test_db :: bool

definition Debug_init :: "bool option \<Rightarrow> bool option \<Rightarrow> Debug" where
  "Debug_init enabled_arg use_test_db_arg =
     \<lparr> enabled = py_or truthy_bool enabled_arg False,
       use_test_db = py_or truthy_bool use_test_db_arg False \<rparr>"

record Authentication =
  signing_secret_key :: string
  refresh_signing_secret_key :: string
  encryption_secret_key :: string
  signing_algorithm :: string
  encryption_algorithm :: string
  encoding :: string
  access_token_expire_minutes :: int
  refresh_token_expire_minutes :: int

text \<open>
  \<open>Authentication.__init__\<close>: the only check is that none of the three keys is \<open>None\<close>;
  the keys are then stored as they are.
\<close>

definition Authentication_init ::
  "string option \<Rightarrow> string option \<Rightarrow> string option \<Rightarrow> string option \<Rightarrow> string option \<Rightarrow>
   string option \<Rightarrow> int option \<Rightarrow> int option \<Rightarrow> py_exception + Authentication" where
  "Authentication_init signing_key refresh_key encryption_key signing_alg encryption_alg
       enc access_minutes refresh_minutes =
     (if signing_key = None \<or> refresh_key = None \<or> encryption_key = None
      then Inl (ValueError ''Signing or encryption secret key is empty in configuration file.'')
      else Inr \<lparr> signing_secret_key = the signing_key,
                 refresh_signing_secret_key = the refresh_key,
                 encryption_secret_key = the encryption_key,
                 signing_algorithm = py_or truthy_seq signing_alg ''HS256'',
                 encryption_algorithm = py_or truthy_seq encryption_alg ''A256GCM'',
                 encoding = py_or truthy_seq enc ''utf-8'',
                 access_token_expire_minutes = py_or truthy_int access_minutes 30,
                 refresh_token_expire_minutes = py_or truthy_int refresh_minutes 10080 \<rparr>)"

record Security =
  allow_origins :: "string list"
  allow_credentials :: bool
  allow_methods :: "string list"
  allow_headers :: "string list"

definition Security_init ::
  "string list option \<Rightarrow> bool option \<Rightarrow> string list option \<Rightarrow> string list option \<Rightarrow> Security" where
  "Security_init origins credentials methods headers =
     \<lparr> allow_origins = py_or truthy_seq origins [''*''],
       allow_credentials = py_or truthy_bool credentials True,
       allow_methods = py_or truthy_seq methods [''*''],
       allow_headers = py_or truthy_seq headers [''*''] \<rparr>"

subsection \<open>The key material of tests/test\_confighandler.py\<close>

definition DEFAULT_VALUE :: string where
  "DEFAULT_VALUE = ''UPDATE_THIS_VALUE''"

definition VALID_SIGNING_KEY :: string where
  "VALID_SIGNING_KEY = ''b5eeca9520e2ada4ad96e1981d5c8f5515685201bfc2a19ad1fbee12ef8ba5d2''"

definition VALID_REFRESH_SIGNING_KEY :: string where
  "VALID_REFRESH_SIGNING_KEY = ''cc20b62bb11859aa2b4140fc1641f11659bdbe8860faa8c9629be006d165a26a''"

definition VALID_ENCRYPTION_KEY :: string where
  "VALID_ENCRYPTION_KEY = ''74969957b5a005133b3f1ab7dbbcedcf''"

text \<open>The configuration the constructor builds from three keys and no other argument.\<close>

definition auth_with_keys :: "string \<Rightarrow> string \<Rightarrow> string \<Rightarrow> Authentication" where
  "auth_with_keys k1 k2 k3 =
     \<lparr> signing_secret_key = k1, refresh_signing_secret_key = k2, encryption_secret_key = k3,
       signing_algorithm = ''HS256'', encryption_algorithm = ''A256GCM'', encoding = ''utf-8'',
       access_token_expire_minutes = 30, refresh_token_expire_minutes = 10080 \<rparr>"

section \<open>The persistence layer\<close>

text \<open>
  The ORM models (\<open>models/user.py\<close>, \<open>models/role.py\<close>, \<open>models/token.py\<close>) are not
  among the sources; the records below carry the fields the route handlers and
  \<open>db_handler.populate_db\<close> read and write. An optional column is an option, a time is a
  number of seconds, and a Python \<open>str\<close> is a list of characters read as code points
  below 256.
\<close>

record User =
  user_id :: string
  username :: string
  password :: string
  roleId :: int
  email :: "string option"
  nameFirst :: "string option"
  nameMiddle :: "string option"
  nameLast :: "string option"
  position :: "string option"
  schoolId :: "int option"
  otpSecret :: "string option"
  otpVerified :: bool
  otpNonce :: "string option"
  otpNonceExpires :: "int option"
  lastLoggedInTime :: "int option"
  lastLoggedInIp :: "string option"
  oauthLinkedGoogleId :: "string option"
  oauthLinkedMicrosoftId :: "string option"
  oauthLinkedFacebookId :: "string option"

record Role =
  role_id :: int
  description :: string
  modifiable :: bool

record store =
  users :: "User list"
  roles :: "Role list"

text \<open>\<open>session.get(User, key)\<close> and \<open>session.get(Role, key)\<close>: the row with that primary key.\<close>

definition session_get_user :: "store \<Rightarrow> string \<Rightarrow> User option" where
  "session_get_user s key = find (\<lambda>u. user_id u = key) (users s)"

definition session_get_role :: "store \<Rightarrow> int \<Rightarrow> Role option" where
  "session_get_role s key = find (\<lambda>r. role_id r = key) (roles s)"

text \<open>\<open>session.exec(select(User).where(User.username == name)).first()\<close>.\<close>

definition select_user_by_username :: "store \<Rightarrow> string \<Rightarrow> User option" where
  "select_user_by_username s name = find (\<lambda>u. username u = name) (users s)"

text \<open>\<open>session.add(user); session.commit()\<close> for a new object inserts its row.\<close>

definition session_add :: "User \<Rightarrow> store \<Rightarrow> store" where
  "session_add u s = s\<lparr>users := users s @ [u]\<rparr>"

text \<open>
  \<open>session.commit()\<close> after attributes of the loaded object \<open>old\<close> were assigned writes
  the object's new state \<open>new\<close> to the row that \<open>old\<close> was loaded from.
\<close>

definition session_commit :: "User \<Rightarrow> User \<Rightarrow> store \<Rightarrow> store" where
  "session_commit old new s =
     s\<lparr>users := map (\<lambda>x. if user_id x = user_id old then new else x) (users s)\<rparr>"

datatype HTTPException = HTTPException (status_code: int) (detail: string)

section \<open>user\_handler.py\<close>

text \<open>
  \<open>str.isalnum\<close>, \<open>str.isdigit\<close>, \<open>str.islower\<close> and \<open>str.isupper\<close> on one character,
  for the code points below 256.
\<close>

definition isdigit :: "char \<Rightarrow> bool" where
  "isdigit c = (let n = (of_char c :: nat) in
     (48 \<le> n \<and> n \<le> 57) \<or> n = 178 \<or> n = 179 \<or> n = 185)"

definition isupper :: "char \<Rightarrow> bool" where
  "isupper c = (let n = (of_char c :: nat) in
     (65 \<le> n \<and> n \<le> 90) \<or> (192 \<le> n \<and> n \<le> 214) \<or> (216 \<le> n \<and> n \<le> 222))"

definition islower :: "char \<Rightarrow> bool" where
  "islower c = (let n = (of_char c :: nat) in
     (97 \<le> n \<and> n \<le> 122) \<or> n = 170 \<or> n = 181 \<or> n = 186
     \<or> (223 \<le> n \<and> n \<le> 246) \<or> (248 \<le> n \<and> n \<le> 255))"

definition isalnum :: "char \<Rightarrow> bool" where
  "isalnum c = (let n = (of_char c :: nat) in
     isupper c \<or> islower c \<or> isdigit c \<or> (188 \<le> n \<and> n \<le> 190))"

definition validate_username :: "string \<Rightarrow> bool" where
  "validate_username name =
     (list_all (\<lambda>c. isalnum c \<or> c = CHR ''_'' \<or> c = CHR ''-'') name
      \<and> length name > 3 \<and> length name < 22)"

definition validate_password :: "string \<Rightarrow> bool" where
  "validate_password pw =
     (length pw \<ge> 8 \<and> list_ex isdigit pw \<and> list_ex islower pw \<and> list_ex isupper pw)"

text \<open>
  The request body of the create route. \<open>create_user\<close> reads its username, password and
  role id.
\<close>

record UserCreate =
  uc_username :: string
  uc_roleId :: int
  uc_password :: string
  uc_email :: "string option"
  uc_nameFirst :: "string option"
  uc_nameMiddle :: "string option"
  uc_nameLast :: "string option"
  uc_position :: "string option"
  uc_schoolId :: "int option"

text \<open>
  \<open>User(username=..., password=..., roleId=...)\<close>: the primary key comes from the model's
  default, here the argument \<open>new_id\<close>; every other column has its default.
\<close>

definition User_init :: "string \<Rightarrow> string \<Rightarrow> string \<Rightarrow> int \<Rightarrow> User" where
  "User_init new_id name pw_hash role =
     \<lparr> user_id = new_id, username = name, password = pw_hash, roleId = role,
       email = None, nameFirst = None, nameMiddle = None, nameLast = None,
       position = None, schoolId = None, otpSecret = None, otpVerified = False,
       otpNonce = None, otpNonceExpires = None, lastLoggedInTime = None,
       lastLoggedInIp = None, oauthLinkedGoogleId = None, oauthLinkedMicrosoftId = None,
       oauthLinkedFacebookId = None \<rparr>"

text \<open>
  \<open>create_user\<close>. \<open>crypt_hash\<close> stands for \<open>crypt_ctx.hash\<close>. The result pairs what the
  function returns or raises with the store it leaves.
\<close>

definition create_user ::
  "(string \<Rightarrow> string) \<Rightarrow> string \<Rightarrow> UserCreate \<Rightarrow> store \<Rightarrow> (HTTPException + User) \<times> store" where
  "create_user crypt_hash new_id new_user s =
     (if select_user_by_username s (uc_username new_user) \<noteq> None
      then (Inl (HTTPException 409 ''Username already exists''), s)
      else if \<not> validate_username (uc_username new_user)
      then (Inl (HTTPException 400 ''Invalid username''), s)
      else if \<not> validate_password (uc_password new_user)
      then (Inl (HTTPException 400 ''Invalid password format''), s)
      else
        let user = User_init new_id (uc_username new_user)
                     (crypt_hash (uc_password new_user)) (uc_roleId new_user)
        in (Inr user, session_add user s))"

text \<open>
  \<open>update_user_info\<close>. \<open>acquired_user.sqlmodel_update(updated_user)\<close> assigns every field
  of \<open>updated_user\<close> to \<open>acquired_user\<close>; the commit writes the row \<open>acquired_user\<close> was
  loaded from.
\<close>

definition update_user_info ::
  "User \<Rightarrow> User \<Rightarrow> store \<Rightarrow> (HTTPException + User) \<times> store" where
  "update_user_info acquired_user updated_user s =
     (if select_user_by_username s (username updated_user) \<noteq> None
      then (Inl (HTTPException 409 ''Username already exists''), s)
      else if \<not> validate_username (username updated_user)
      then (Inl (HTTPException 400 ''Invalid username''), s)
      else (Inr updated_user, session_commit acquired_user updated_user s))"

section \<open>routers/auth\_routes/\_\_init\_\_.py\<close>

text \<open>
  \<open>auth_handler.py\<close> is not among the sources. Its functions are arguments of the
  routes that call them: \<open>verify_access_token\<close> maps a bearer string to the decoded token
  or to the \<open>HTTPException\<close> it raises, \<open>create_access_token\<close> maps a user id, a lifetime in
  minutes and the refresh flag to a bearer string, \<open>verify_user_permission\<close> answers for a
  permission name, the session and a decoded token, and \<open>authenticate_user\<close> returns the
  user or a pair of status and message, with the store it leaves. The clock and the
  \<open>uuid.uuid4()\<close> values are arguments too.
\<close>

record DecodedJWTToken =
  tok_id :: string
  is_refresh_token :: bool

record JWTToken =
  uid :: string
  access_token :: string
  refresh_token :: "string option"
  token_type :: string

definition logged_in_dep ::
  "(string \<Rightarrow> HTTPException + DecodedJWTToken) \<Rightarrow> string \<Rightarrow> HTTPException + DecodedJWTToken" where
  "logged_in_dep verify_access_token bearer = verify_access_token bearer"

text \<open>
  What a route raises: an \<open>HTTPException\<close>, which becomes the response, or another
  exception, which no handler of the route catches.
\<close>

datatype raised =
    Http HTTPException
  | Uncaught py_exception

text \<open>
  \<open>create_new_user\<close>, after \<open>logged_in_dep\<close> has produced \<open>token\<close>. Once the four
  tests have passed, the route evaluates
  \<open>create_user(new_user, session, background_tasks, email_verified=email_verified)\<close>.
  The \<open>create_user\<close> of \<open>user_handler.py\<close> has the two parameters \<open>new_user\<close> and
  \<open>session\<close>: binding three positional arguments and the keyword \<open>email_verified\<close> to
  them raises \<open>TypeError\<close> before the body of \<open>create_user\<close> runs, so nothing is written.
\<close>

definition create_new_user ::
  "(string \<Rightarrow> store \<Rightarrow> DecodedJWTToken \<Rightarrow> bool) \<Rightarrow> UserCreate \<Rightarrow> DecodedJWTToken \<Rightarrow> store \<Rightarrow>
   (raised + User) \<times> store" where
  "create_new_user verify_user_permission new_user token s =
     (if \<not> verify_user_permission ''users:create'' s token
      then (Inl (Http (HTTPException 403 ''You do not have permission to create a user.'')), s)
      else case session_get_user s (tok_id token) of
        None \<Rightarrow> (Inl (Http (HTTPException 403 ''User not found.'')), s)
      | Some user \<Rightarrow>
          (case session_get_role s (uc_roleId new_user) of
            None \<Rightarrow> (Inl (Http (HTTPException 400 ''Invalid role ID provided.'')), s)
          | Some user_role \<Rightarrow>
              if uc_roleId new_user < roleId user
              then (Inl (Http (HTTPException 403
                      ''You do not have permission to create a user with this role.'')), s)
              else (Inl (Uncaught TypeError), s)))"

record OAuth2PasswordRequestForm =
  form_username :: string
  form_password :: string

datatype login_response =
    Token JWTToken
  | OtpRequired (message: string) (otp_nonce: string)

definition truthy_optstr :: "string option \<Rightarrow> bool" where
  "truthy_optstr v = (case v of None \<Rightarrow> False | Some x \<Rightarrow> x \<noteq> [])"

text \<open>
  \<open>request_access_token\<close>. The query parameter \<open>remember_me\<close> defaults to \<open>False\<close> when it
  is omitted. \<open>otp_nonce_expire_minutes\<close> is read from a configuration field that the
  \<open>Authentication\<close> class of \<open>config_handler.py\<close> does not have.
\<close>

definition request_access_token ::
  "(string \<Rightarrow> string \<Rightarrow> string option \<Rightarrow> store \<Rightarrow> ((int \<times> string) + User) \<times> store) \<Rightarrow>
   (string \<Rightarrow> int \<Rightarrow> bool \<Rightarrow> string) \<Rightarrow> Authentication \<Rightarrow> int \<Rightarrow> int \<Rightarrow> string \<Rightarrow>
   OAuth2PasswordRequestForm \<Rightarrow> string option \<Rightarrow> bool option \<Rightarrow> store \<Rightarrow>
   (HTTPException + login_response) \<times> store" where
  "request_access_token authenticate_user create_access_token cfg otp_nonce_expire_minutes
       now new_uuid data client_host remember_me_arg s =
     (let remember_me = (case remember_me_arg of None \<Rightarrow> False | Some b \<Rightarrow> b) in
      case authenticate_user (form_username data) (form_password data) client_host s of
        (Inl (code, msg), s1) \<Rightarrow> (Inl (HTTPException code msg), s1)
      | (Inr user, s1) \<Rightarrow>
          if truthy_optstr (otpSecret user) \<and> otpVerified user
          then
            let user' = user\<lparr>otpNonce := Some new_uuid,
                             otpNonceExpires := Some (now + 60 * otp_nonce_expire_minutes)\<rparr>
            in (Inr (OtpRequired ''MFA OTP is enabled. Please provide your OTP to continue.''
                       new_uuid),
                session_commit user user' s1)
          else
            let user' = user\<lparr>lastLoggedInTime := Some now, lastLoggedInIp := client_host\<rparr>;
                access = create_access_token (user_id user)
                           (access_token_expire_minutes cfg) False;
                refresh = (if remember_me
                           then Some (create_access_token (user_id user)
                                        (refresh_token_expire_minutes cfg) True)
                           else None)
            in (Inr (Token \<lparr> uid = new_uuid, access_token = access,
                              refresh_token = refresh, token_type = ''bearer'' \<rparr>),
                session_commit user user' s1))"

text \<open>
  \<open>refresh_access_token\<close>. The body of the \<open>try\<close> is \<open>refresh_body\<close>; the handler turns
  every \<open>HTTPException\<close> of the body into one 401. The route writes nothing.
\<close>

definition refresh_body ::
  "(string \<Rightarrow> HTTPException + DecodedJWTToken) \<Rightarrow> (string \<Rightarrow> int \<Rightarrow> bool \<Rightarrow> string) \<Rightarrow>
   Authentication \<Rightarrow> string \<Rightarrow> store \<Rightarrow> string \<Rightarrow> HTTPException + JWTToken" where
  "refresh_body verify_access_token create_access_token cfg new_uuid s refresh_tok =
     (case verify_access_token refresh_tok of
        Inl e \<Rightarrow> Inl e
      | Inr decoded_token \<Rightarrow>
          (case session_get_user s (tok_id decoded_token) of
            None \<Rightarrow> Inl (HTTPException 401 ''User not found.'')
          | Some user \<Rightarrow>
              Inr \<lparr> uid = new_uuid,
                    access_token = create_access_token (user_id user)
                                     (access_token_expire_minutes cfg) False,
                    refresh_token = Some refresh_tok,
                    token_type = ''bearer'' \<rparr>))"

definition refresh_access_token ::
  "(string \<Rightarrow> HTTPException + DecodedJWTToken) \<Rightarrow> (string \<Rightarrow> int \<Rightarrow> bool \<Rightarrow> string) \<Rightarrow>
   Authentication \<Rightarrow> string \<Rightarrow> store \<Rightarrow> string \<Rightarrow> HTTPException + JWTToken" where
  "refresh_access_token verify_access_token create_access_token cfg new_uuid s refresh_tok =
     (case refresh_body verify_access_token create_access_token cfg new_uuid s refresh_tok of
        Inl e \<Rightarrow> Inl (HTTPException 401 ''Invalid or expired refresh token.'')
      | Inr r \<Rightarrow> Inr r)"

record UserInvite =
  ui_username :: string
  ui_roleId :: int
  ui_email :: string
  ui_nameFirst :: "string option"
  ui_nameMiddle :: "string option"
  ui_nameLast :: "string option"
  ui_position :: "string option"
  ui_schoolId :: "int option"

text \<open>
  \<open>invite_user\<close>. Once the four tests have passed, the route draws a password and
  enters the loop \<open>while not (await validate_password(genpass))[0]\<close>. The
  \<open>validate_password\<close> of \<open>user_handler.py\<close> returns a \<open>bool\<close>, and awaiting a \<open>bool\<close>
  raises \<open>TypeError\<close>: the first test of the loop ends the route, outside its \<open>try\<close>,
  before \<open>create_user\<close> is called.
\<close>

definition invite_user ::
  "(string \<Rightarrow> store \<Rightarrow> DecodedJWTToken \<Rightarrow> bool) \<Rightarrow> UserInvite \<Rightarrow> DecodedJWTToken \<Rightarrow> store \<Rightarrow>
   (raised + User) \<times> store" where
  "invite_user verify_user_permission new_user token s =
     (if \<not> verify_user_permission ''users:create'' s token
      then (Inl (Http (HTTPException 403 ''You do not have permission to invite a user.'')), s)
      else case session_get_user s (tok_id token) of
        None \<Rightarrow> (Inl (Http (HTTPException 403 ''User not found.'')), s)
      | Some user \<Rightarrow>
          (case session_get_role s (ui_roleId new_user) of
            None \<Rightarrow> (Inl (Http (HTTPException 400 ''Invalid role ID provided.'')), s)
          | Some user_role \<Rightarrow>
              if ui_roleId new_user < roleId user
              then (Inl (Http (HTTPException 403
                      ''You do not have permission to invite a user with this role.'')), s)
              else (Inl (Uncaught TypeError), s)))"

section \<open>internals/adapters/oauth.py\<close>

text \<open>
  The adapter configurations (\<open>adapters/config.py\<close>) are not among the sources; the
  record has the fields the adapters read, \<open>tenant\<close> being read by the Microsoft adapter
  only. The three adapter classes are the variants of one datatype.
\<close>

record OAuthAdapterConfig =
  client_id :: string
  client_secret :: string
  redirect_uri :: string
  tenant :: string

datatype OAuthAdapter =
    GoogleOAuthAdapter OAuthAdapterConfig
  | FacebookOAuthAdapter OAuthAdapterConfig
  | MicrosoftOAuthAdapter OAuthAdapterConfig

text \<open>
  A parsed JSON document as the Python value \<open>response.json()\<close> returns: \<open>JNull\<close> is
  \<open>None\<close>, an object is a dict, kept as an association list.
\<close>

datatype json =
    JNull
  | JBool bool
  | JNum int
  | JStr string
  | JArr "json list"
  | JObj "(string \<times> json) list"

text \<open>
  The network as \<open>httpx\<close> shows it: a call either raises (a timeout, for one) or returns
  a response with a status code and a body, which is \<open>None\<close> when it is not JSON. A
  request is the form posted to a URL, or a GET of a URL with the value that the
  f-string formats into the \<open>Authorization\<close> header or the query string.
\<close>

datatype http_reply =
    Raised py_exception
  | Response int "json option"

datatype http_request =
    Post string "(string \<times> string) list"
  | Get string json

text \<open>\<open>response.json()\<close> raises when the body does not parse.\<close>

definition response_json :: "json option \<Rightarrow> py_exception + json" where
  "response_json body = (case body of None \<Rightarrow> Inl JSONDecodeError | Some j \<Rightarrow> Inr j)"

text \<open>\<open>.get(key)\<close> on the parsed value: only a dict has the method.\<close>

definition json_get :: "json \<Rightarrow> string \<Rightarrow> py_exception + json" where
  "json_get j key =
     (case j of
        JObj kvs \<Rightarrow> (case map_of kvs key of None \<Rightarrow> Inr JNull | Some v \<Rightarrow> Inr v)
      | _ \<Rightarrow> Inl AttributeError)"

text \<open>The token request and the profile request of each adapter.\<close>

fun token_request :: "OAuthAdapter \<Rightarrow> string \<Rightarrow> http_request" where
  "token_request (GoogleOAuthAdapter config) code =
     Post ''https://accounts.google.com/o/oauth2/token''
       [(''code'', code), (''client_id'', client_id config),
        (''client_secret'', client_secret config), (''redirect_uri'', redirect_uri config),
        (''grant_type'', ''authorization_code'')]"
| "token_request (FacebookOAuthAdapter config) code =
     Post ''https://graph.facebook.com/v21.0/oauth/access_token''
       [(''code'', code), (''client_id'', client_id config),
        (''client_secret'', client_secret config), (''redirect_uri'', redirect_uri config)]"
| "token_request (MicrosoftOAuthAdapter config) code =
     Post (''https://login.microsoftonline.com/'' @ tenant config @ ''/oauth2/v2.0/token'')
       [(''code'', code), (''client_id'', client_id config),
        (''client_secret'', client_secret config), (''redirect_uri'', redirect_uri config),
        (''grant_type'', ''authorization_code'')]"

fun profile_request :: "OAuthAdapter \<Rightarrow> json \<Rightarrow> http_request" where
  "profile_request (GoogleOAuthAdapter config) access_tok =
     Get ''https://www.googleapis.com/oauth2/v1/userinfo'' access_tok"
| "profile_request (FacebookOAuthAdapter config) access_tok =
     Get ''https://graph.facebook.com/me?fields=id,name,email&access_token='' access_tok"
| "profile_request (MicrosoftOAuthAdapter config) access_tok =
     Get ''https://graph.microsoft.com/v1.0/me'' access_tok"

text \<open>
  \<open>exchange_code_for_token\<close>, the same statements in the three classes: post the form,
  read \<open>access_token\<close> from the parsed reply, get the profile, return its parsed body.
  No statement looks at a status code and none catches an exception.
\<close>

definition exchange_code_for_token ::
  "(http_request \<Rightarrow> http_reply) \<Rightarrow> OAuthAdapter \<Rightarrow> string \<Rightarrow> py_exception + json" where
  "exchange_code_for_token httpx adapter code =
     (case httpx (token_request adapter code) of
        Raised e \<Rightarrow> Inl e
      | Response status body \<Rightarrow>
          (case response_json body of
            Inl e \<Rightarrow> Inl e
          | Inr parsed \<Rightarrow>
              (case json_get parsed ''access_token'' of
                Inl e \<Rightarrow> Inl e
              | Inr access_tok \<Rightarrow>
                  (case httpx (profile_request adapter access_tok) of
                    Raised e \<Rightarrow> Inl e
                  | Response status' body' \<Rightarrow> response_json body'))))"

section \<open>routers/auth\_routes/oauth.py\<close>

text \<open>
  The unlink routes. The module-level adapter of a provider is \<open>None\<close> when the provider
  is not configured.
\<close>

definition oauth_unlink_google ::
  "OAuthAdapter option \<Rightarrow> DecodedJWTToken \<Rightarrow> store \<Rightarrow> (HTTPException + string) \<times> store" where
  "oauth_unlink_google google_oauth_adapter token s =
     (if google_oauth_adapter = None
      then (Inl (HTTPException 501 ''Google OAuth is not configured.''), s)
      else case session_get_user s (tok_id token) of
        None \<Rightarrow> (Inl (HTTPException 404 ''User not found.''), s)
      | Some user \<Rightarrow>
          (Inr ''Google account unlinked successfully.'',
           session_commit user (user\<lparr>oauthLinkedGoogleId := None\<rparr>) s))"

definition oauth_unlink_microsoft ::
  "OAuthAdapter option \<Rightarrow> DecodedJWTToken \<Rightarrow> store \<Rightarrow> (HTTPException + string) \<times> store" where
  "oauth_unlink_microsoft microsoft_oauth_adapter token s =
     (if microsoft_oauth_adapter = None
      then (Inl (HTTPException 501 ''Microsoft OAuth is not configured.''), s)
      else case session_get_user s (tok_id token) of
        None \<Rightarrow> (Inl (HTTPException 404 ''User not found.''), s)
      | Some user \<Rightarrow>
          (Inr ''Microsoft account unlinked successfully.'',
           session_commit user (user\<lparr>oauthLinkedMicrosoftId := None\<rparr>) s))"

definition oauth_unlink_facebook ::
  "OAuthAdapter option \<Rightarrow> DecodedJWTToken \<Rightarrow> store \<Rightarrow> (HTTPException + string) \<times> store" where
  "oauth_unlink_facebook facebook_oauth_adapter token s =
     (if facebook_oauth_adapter = None
      then (Inl (HTTPException 501 ''Facebook OAuth is not configured.''), s)
      else case session_get_user s (tok_id token) of
        None \<Rightarrow> (Inl (HTTPException 404 ''User not found.''), s)
      | Some user \<Rightarrow>
          (Inr ''Facebook account unlinked successfully.'',
           session_commit user (user\<lparr>oauthLinkedFacebookId := None\<rparr>) s))"

section \<open>auth\_handler.py\<close>

text \<open>
  Modelled from the spec: \<open>verify_access_token\<close> of \<open>auth_handler.py\<close>, which is not
  among the sources. A token encodes its subject, its expiry and its kind; verification
  fails when the token is malformed or badly signed, when it has expired, and with
  \<open>TokenWrongKind\<close> when a refresh token is presented to this access-only check.
  \<open>decode\<close> stands for the decryption and the signature check, \<open>None\<close> being their failure.
\<close>

record token_claims =
  sub :: string
  expiry :: int
  refresh_kind :: bool

definition verify_access_token ::
  "(string \<Rightarrow> token_claims option) \<Rightarrow> int \<Rightarrow> string \<Rightarrow> HTTPException + DecodedJWTToken" where
  "verify_access_token decode now bearer =
     (case decode bearer of
        None \<Rightarrow> Inl (HTTPException 401 ''TokenMalformed'')
      | Some claims \<Rightarrow>
          if expiry claims \<le> now then Inl (HTTPException 401 ''TokenExpired'')
          else if refresh_kind claims then Inl (HTTPException 401 ''TokenWrongKind'')
          else Inr \<lparr> tok_id = sub claims, is_refresh_token = False \<rparr>)"

text \<open>
  Modelled from the spec: \<open>verify_user_permission\<close> of \<open>auth_handler.py\<close>, which is not
  among the sources. The permission gate resolves the user's role id to the role's
  permission set, a static table, and checks membership.
\<close>

definition verify_user_permission ::
  "(int \<Rightarrow> string list) \<Rightarrow> string \<Rightarrow> store \<Rightarrow> DecodedJWTToken \<Rightarrow> bool" where
  "verify_user_permission role_permissions permission s token =
     (case session_get_user s (tok_id token) of
        None \<Rightarrow> False
      | Some user \<Rightarrow> permission \<in> set (role_permissions (roleId user)))"

text \<open>
  Modelled from the spec: \<open>create_access_token\<close> of \<open>auth_handler.py\<close>, which is not
  among the sources. \<open>issue(user_id, ttl, kind)\<close> returns a token that encodes the subject
  id, the issued-at time, the expiry, the kind (access or refresh) and a random unique
  id, and that is signed. The token is the text of the five fields, separated by dots,
  followed by the signature of that text. \<open>sign\<close> stands for the keyed signing function,
  \<open>clock\<close> for the time of the call in seconds and \<open>unique_id\<close> for the random source.
\<close>

fun digits :: "nat \<Rightarrow> string" where
  "digits n = (if n < 10 then [''0123456789'' ! n]
               else digits (n div 10) @ [''0123456789'' ! (n mod 10)])"

declare digits.simps [simp del]

definition show_int :: "int \<Rightarrow> string" where
  "show_int i = (if i < 0 then ''-'' @ digits (nat (- i)) else digits (nat i))"

definition token_payload :: "string \<Rightarrow> int \<Rightarrow> int \<Rightarrow> bool \<Rightarrow> string \<Rightarrow> string" where
  "token_payload subject issued_at expires refresh jti =
     subject @ ''.'' @ show_int issued_at @ ''.'' @ show_int expires @ ''.''
       @ (if refresh then ''refresh'' else ''access'') @ ''.'' @ jti"

definition create_access_token ::
  "(string \<Rightarrow> string) \<Rightarrow> int \<Rightarrow> (string \<Rightarrow> bool \<Rightarrow> string) \<Rightarrow> string \<Rightarrow> int \<Rightarrow> bool \<Rightarrow> string" where
  "create_access_token sign clock unique_id subject minutes refresh =
     (let payload = token_payload subject clock (clock + 60 * minutes) refresh
                      (unique_id subject refresh)
      in payload @ ''.'' @ sign payload)"

section \<open>Example data\<close>

definition example_roles :: "Role list" where
  "example_roles =
     [\<lparr> role_id = 1, description = ''first role'', modifiable = False \<rparr>,
      \<lparr> role_id = 2, description = ''second role'', modifiable = False \<rparr>,
      \<lparr> role_id = 3, description = ''third role'', modifiable = True \<rparr>]"

definition example_admin :: User where
  "example_admin = User_init ''u1'' ''admin'' ''hash1'' 1"

definition example_principal :: User where
  "example_principal =
     (User_init ''u2'' ''principal'' ''hash2'' 2)\<lparr>oauthLinkedGoogleId := Some ''g-42'',
        oauthLinkedFacebookId := Some ''f-7'', oauthLinkedMicrosoftId := Some ''m-9''\<rparr>"

definition example_store :: store where
  "example_store = \<lparr> users = [example_admin, example_principal], roles = example_roles \<rparr>"

definition example_permissions :: "int \<Rightarrow> string list" where
  "example_permissions r = (if r = 1 \<or> r = 2 then [''users:create''] else [])"

definition example_hash :: "string \<Rightarrow> string" where
  "example_hash pw = ''hashed:'' @ pw"

definition example_decode :: "string \<Rightarrow> token_claims option" where
  "example_decode =
     map_of [(''access.u1'', \<lparr> sub = ''u1'', expiry = 1000, refresh_kind = False \<rparr>),
             (''refresh.u1'', \<lparr> sub = ''u1'', expiry = 9000, refresh_kind = True \<rparr>),
             (''access.u9'', \<lparr> sub = ''u9'', expiry = 1000, refresh_kind = False \<rparr>)]"

definition example_issue :: "string \<Rightarrow> int \<Rightarrow> bool \<Rightarrow> string" where
  "example_issue subject minutes refresh = (if refresh then ''refresh.'' else ''access.'') @ subject"

definition example_config :: Authentication where
  "example_config = auth_with_keys VALID_SIGNING_KEY VALID_REFRESH_SIGNING_KEY VALID_ENCRYPTION_KEY"

definition example_adapter :: OAuthAdapter where
  "example_adapter =
     GoogleOAuthAdapter \<lparr> client_id = ''cid'', client_secret = ''secret'',
       redirect_uri = ''https://example.org/cb'', tenant = ''common'' \<rparr>"

definition example_token :: "string \<Rightarrow> DecodedJWTToken" where
  "example_token subject = \<lparr> tok_id = subject, is_refresh_token = False \<rparr>"

definition example_request :: "string \<Rightarrow> int \<Rightarrow> string \<Rightarrow> UserCreate" where
  "example_request name role pw =
     \<lparr> uc_username = name, uc_roleId = role, uc_password = pw, uc_email = None,
       uc_nameFirst = None, uc_nameMiddle = None, uc_nameLast = None, uc_position = None,
       uc_schoolId = None \<rparr>"

definition example_invite :: "string \<Rightarrow> int \<Rightarrow> UserInvite" where
  "example_invite name role =
     \<lparr> ui_username = name, ui_roleId = role, ui_email = ''new@example.org'',
       ui_nameFirst = None, ui_nameMiddle = None, ui_nameLast = None, ui_position = None,
       ui_schoolId = None \<rparr>"

definition example_authenticate ::
  "string \<Rightarrow> string \<Rightarrow> string option \<Rightarrow> store \<Rightarrow> ((int \<times> string) + User) \<times> store" where
  "example_authenticate name pw ip s =
     (case select_user_by_username s name of
        None \<Rightarrow> (Inl (401, ''Invalid credentials''), s)
      | Some u \<Rightarrow> if password u = pw then (Inr u, s) else (Inl (401, ''Invalid credentials''), s))"

definition example_httpx_timeout :: "http_request \<Rightarrow> http_reply" where
  "example_httpx_timeout request = Raised TimeoutException"

definition example_httpx_unavailable :: "http_request \<Rightarrow> http_reply" where
  "example_httpx_unavailable request =
     Response 503 (Some (JObj [(''error'', JStr ''unavailable'')]))"

definition example_httpx_bad_gateway :: "http_request \<Rightarrow> http_reply" where
  "example_httpx_bad_gateway request = Response 502 None"

definition example_sign :: "string \<Rightarrow> string" where
  "example_sign payload = ''sig''"

definition example_unique_id :: "string \<Rightarrow> bool \<Rightarrow> string" where
  "example_unique_id subject refresh = (if refresh then ''id-r'' else ''id-a'')"

definition example_httpx_not_object :: "http_request \<Rightarrow> http_reply" where
  "example_httpx_not_object request = Response 500 (Some (JArr []))"

definition example_httpx_slow_profile :: "http_request \<Rightarrow> http_reply" where
  "example_httpx_slow_profile request =
     (case request of
        Post url form \<Rightarrow> Response 200 (Some (JObj [(''access_token'', JStr ''at-1'')]))
      | Get url value \<Rightarrow> Raised TimeoutException)"

section \<open>Configuration: results\<close>

lemma py_or_None: "py_or truthy None d = d"
  by (simp add: py_or_def)

lemma py_or_Some: "py_or truthy (Some x) d = (if truthy x then x else d)"
  by (simp add: py_or_def)

lemma Authentication_init_keys_only:
  "Authentication_init (Some k1) (Some k2) (Some k3) None None None None None
     = Inr (auth_with_keys k1 k2 k3)"
  by (simp add: Authentication_init_def auth_with_keys_def py_or_None)

lemma Authentication_init_succeeds_iff:
  "(\<exists>a. Authentication_init k1 k2 k3 sa ea en am rm = Inr a)
     \<longleftrightarrow> k1 \<noteq> None \<and> k2 \<noteq> None \<and> k3 \<noteq> None"
  by (auto simp add: Authentication_init_def)

text \<open>
  C1. The tests expect \<open>ValueError\<close> for a placeholder key
  (\<open>test_config_authentication_all_keys_unpopulated\<close>) and for a key one character too
  short or too long (\<open>test_config_authentication_signing_key_invalid\<close>). The constructor
  rejects \<open>None\<close> only: it builds a configuration from three placeholder keys, from three
  empty keys, from a signing key of 63 or of 65 characters, and from a signing key equal
  to the encryption key.
\<close>

theorem Authentication_init_accepts_invalid_keys:
  "Authentication_init (Some DEFAULT_VALUE) (Some DEFAULT_VALUE) (Some DEFAULT_VALUE)
       None None None None None
     = Inr (auth_with_keys DEFAULT_VALUE DEFAULT_VALUE DEFAULT_VALUE)
   \<and> Authentication_init (Some []) (Some []) (Some []) None None None None None
     = Inr (auth_with_keys [] [] [])
   \<and> Authentication_init (Some (butlast VALID_SIGNING_KEY)) (Some VALID_REFRESH_SIGNING_KEY)
       (Some VALID_ENCRYPTION_KEY) None None None None None
     = Inr (auth_with_keys (butlast VALID_SIGNING_KEY) VALID_REFRESH_SIGNING_KEY
              VALID_ENCRYPTION_KEY)
   \<and> Authentication_init (Some (VALID_SIGNING_KEY @ ''1'')) (Some VALID_REFRESH_SIGNING_KEY)
       (Some VALID_ENCRYPTION_KEY) None None None None None
     = Inr (auth_with_keys (VALID_SIGNING_KEY @ ''1'') VALID_REFRESH_SIGNING_KEY
              VALID_ENCRYPTION_KEY)
   \<and> Authentication_init (Some VALID_SIGNING_KEY) (Some VALID_REFRESH_SIGNING_KEY)
       (Some VALID_SIGNING_KEY) None None None None None
     = Inr (auth_with_keys VALID_SIGNING_KEY VALID_REFRESH_SIGNING_KEY VALID_SIGNING_KEY)"
  by (simp only: Authentication_init_keys_only)

text \<open>
  C10. \<open>allow_credentials or True\<close> is \<open>True\<close> whatever is passed: an explicit \<open>False\<close>
  is falsy and replaced by the default, as is \<open>None\<close>. The same pattern replaces an
  explicit empty list, empty string, \<open>0\<close> or \<open>False\<close> in the other fields and constructors
  by the field's default.
\<close>

theorem Security_allow_credentials_always_True:
  "allow_credentials (Security_init origins (Some b) methods headers) = True
   \<and> allow_credentials (Security_init origins None methods headers) = True
   \<and> Security_init (Some []) (Some False) (Some []) (Some []) = Security_init None None None None
   \<and> Debug_init (Some False) (Some False) = Debug_init None None
   \<and> Authentication_init (Some k1) (Some k2) (Some k3) (Some []) (Some []) (Some []) (Some 0) (Some 0)
       = Authentication_init (Some k1) (Some k2) (Some k3) None None None None None"
  by (simp add: Security_init_def Debug_init_def Authentication_init_def py_or_def
      truthy_bool_def truthy_seq_def truthy_int_def)

section \<open>Lookups and writes\<close>

lemma find_None_conv: "(find P xs = None) = (\<not> list_ex P xs)"
  by (auto simp: find_None_iff list_ex_iff)

lemma find_Some_holds: "find P xs = Some x \<Longrightarrow> P x"
  by (auto simp: find_Some_iff)

lemma session_get_user_key: "session_get_user s key = Some u \<Longrightarrow> user_id u = key"
  unfolding session_get_user_def by (drule find_Some_holds) simp

lemma find_map_replace:
  "find (\<lambda>x. user_id x = k) xs = Some u \<Longrightarrow> user_id u' = k \<Longrightarrow>
   find (\<lambda>x. user_id x = k) (map (\<lambda>x. if user_id x = k then u' else x) xs) = Some u'"
  by (induction xs) (auto split: if_splits)

lemma find_map_replace_other:
  "j \<noteq> k \<Longrightarrow> user_id u' = k \<Longrightarrow>
   find (\<lambda>x. user_id x = j) (map (\<lambda>x. if user_id x = k then u' else x) xs)
     = find (\<lambda>x. user_id x = j) xs"
  by (induction xs) auto

lemma session_get_user_commit_same:
  assumes "session_get_user s key = Some u" and "user_id u' = user_id u"
  shows "session_get_user (session_commit u u' s) key = Some u'"
proof -
  from assms(1) have k: "user_id u = key" by (rule session_get_user_key)
  from assms(1) have "find (\<lambda>x. user_id x = key) (users s) = Some u"
    by (simp add: session_get_user_def)
  then have "find (\<lambda>x. user_id x = key)
      (map (\<lambda>x. if user_id x = key then u' else x) (users s)) = Some u'"
    using assms(2) k by (intro find_map_replace) simp_all
  then show ?thesis by (simp add: session_get_user_def session_commit_def k)
qed

lemma session_get_user_commit_other:
  "j \<noteq> user_id u \<Longrightarrow> user_id u' = user_id u \<Longrightarrow>
   session_get_user (session_commit u u' s) j = session_get_user s j"
  by (simp add: session_get_user_def session_commit_def find_map_replace_other)

lemma roles_session_commit: "roles (session_commit u u' s) = roles s"
  by (simp add: session_commit_def)

lemma create_user_error_keeps_store:
  "create_user h n nu s = (Inl e, s') \<Longrightarrow> s' = s"
  by (auto simp: create_user_def Let_def split: if_splits)

lemma create_user_success:
  "select_user_by_username s (uc_username nu) = None \<Longrightarrow> validate_username (uc_username nu) \<Longrightarrow>
   validate_password (uc_password nu) \<Longrightarrow>
   create_user h n nu s =
     (Inr (User_init n (uc_username nu) (h (uc_password nu)) (uc_roleId nu)),
      session_add (User_init n (uc_username nu) (h (uc_password nu)) (uc_roleId nu)) s)"
  by (simp add: create_user_def Let_def)

lemma create_user_inserts:
  "select_user_by_username s (uc_username nu) = None \<Longrightarrow> validate_username (uc_username nu) \<Longrightarrow>
   validate_password (uc_password nu) \<Longrightarrow>
   users (snd (create_user h n nu s))
     = users s @ [User_init n (uc_username nu) (h (uc_password nu)) (uc_roleId nu)]"
  by (simp add: create_user_def Let_def session_add_def)

lemma digits_not_empty: "digits n \<noteq> []"
  by (subst digits.simps) simp

lemma create_access_token_not_empty:
  "create_access_token sign clock unique_id subject minutes refresh \<noteq> []"
  by (simp add: create_access_token_def Let_def)

lemma example_validations:
  "validate_username ''admin''" "validate_username ''teacher_1''"
  "validate_password ''Passw0rdX''" "\<not> validate_password ''aaaaaaaaaaaa''"
  by (simp_all add: validate_username_def validate_password_def isalnum_def isupper_def
      islower_def isdigit_def)

lemmas example_defs =
  example_store_def example_admin_def example_principal_def example_roles_def
  example_permissions_def example_hash_def example_token_def example_request_def
  example_invite_def User_init_def

section \<open>Updating a user\<close>

text \<open>
  C9. When some user of the store has the new username, \<open>update_user_info\<close> raises
  409 and leaves the store as it was. The target user's own row counts: an update that
  keeps the username of a stored user never succeeds.
\<close>

theorem update_user_info_username_conflict:
  "(list_ex (\<lambda>u. username u = username updated_user) (users s) \<longrightarrow>
      update_user_info acquired_user updated_user s
        = (Inl (HTTPException 409 ''Username already exists''), s))
   \<and> (acquired_user \<in> set (users s) \<and> username updated_user = username acquired_user \<longrightarrow>
      update_user_info acquired_user updated_user s
        = (Inl (HTTPException 409 ''Username already exists''), s))"
  by (auto simp: update_user_info_def select_user_by_username_def find_None_conv list_ex_iff)

theorem update_user_info_username_conflict_witness:
  "list_ex (\<lambda>u. username u = username (example_admin\<lparr>email := Some ''a@example.org''\<rparr>))
     (users example_store)
   \<and> example_admin \<in> set (users example_store)
   \<and> username (example_admin\<lparr>email := Some ''a@example.org''\<rparr>) = username example_admin
   \<and> update_user_info example_admin (example_admin\<lparr>email := Some ''a@example.org''\<rparr>)
        example_store
        = (Inl (HTTPException 409 ''Username already exists''), example_store)"
  using update_user_info_username_conflict
    [of "example_admin\<lparr>email := Some ''a@example.org''\<rparr>" example_store example_admin]
  by (simp add: example_store_def example_admin_def example_principal_def User_init_def)

section \<open>Tokens: access checks, refresh and login\<close>

text \<open>
  The refresh route verifies the presented token with the verifier that guards the
  access-only routes, and passes no expected kind. Whatever that verifier is, a token it
  accepts for an existing user is accepted by the refresh route as well.
\<close>

lemma refresh_accepts_access_checked_token:
  "logged_in_dep verify t = Inr d \<Longrightarrow> session_get_user s (tok_id d) = Some u \<Longrightarrow>
   refresh_access_token verify issue cfg new_uuid s t =
     Inr \<lparr> uid = new_uuid,
           access_token = issue (user_id u) (access_token_expire_minutes cfg) False,
           refresh_token = Some t, token_type = ''bearer'' \<rparr>"
  by (simp add: logged_in_dep_def refresh_access_token_def refresh_body_def)

lemma refresh_rejects_access_rejected_token:
  "logged_in_dep verify t = Inl e \<Longrightarrow>
   refresh_access_token verify issue cfg new_uuid s t =
     Inl (HTTPException 401 ''Invalid or expired refresh token.'')"
  by (simp add: logged_in_dep_def refresh_access_token_def refresh_body_def)

text \<open>
  C2. With the access-only verifier of the spec, an access token of an existing user is
  accepted by the access check and, presented to the refresh route, is exchanged for a new
  access token; the refresh token of the same user is refused with \<open>TokenWrongKind\<close> by the
  access check and refused by the refresh route too.
\<close>

theorem refresh_access_token_accepts_access_token:
  "logged_in_dep (verify_access_token example_decode 500) ''access.u1''
     = Inr \<lparr> tok_id = ''u1'', is_refresh_token = False \<rparr>
   \<and> refresh_access_token (verify_access_token example_decode 500) example_issue
       example_config ''uuid-1'' example_store ''access.u1''
     = Inr \<lparr> uid = ''uuid-1'', access_token = ''access.u1'',
             refresh_token = Some ''access.u1'', token_type = ''bearer'' \<rparr>
   \<and> logged_in_dep (verify_access_token example_decode 500) ''refresh.u1''
     = Inl (HTTPException 401 ''TokenWrongKind'')
   \<and> refresh_access_token (verify_access_token example_decode 500) example_issue
       example_config ''uuid-1'' example_store ''refresh.u1''
     = Inl (HTTPException 401 ''Invalid or expired refresh token.'')"
  by (simp add: logged_in_dep_def refresh_access_token_def refresh_body_def
      verify_access_token_def example_decode_def example_issue_def example_config_def
      auth_with_keys_def session_get_user_def example_defs)

text \<open>
  C4. Once the token has verified, the route looks its subject up in the store. When no
  user has that id the request fails with 401 and no token is issued; so it does on any
  store from which the subject's rows have been deleted. When the user exists, the new
  access token is issued for the stored user's id.
\<close>

theorem refresh_access_token_rechecks_user:
  "(verify t = Inr d \<and> session_get_user s (tok_id d) = None \<longrightarrow>
      refresh_access_token verify issue cfg new_uuid s t
        = Inl (HTTPException 401 ''Invalid or expired refresh token.''))
   \<and> (verify t = Inr d \<longrightarrow>
      refresh_access_token verify issue cfg new_uuid
          (s\<lparr>users := filter (\<lambda>u. user_id u \<noteq> tok_id d) (users s)\<rparr>) t
        = Inl (HTTPException 401 ''Invalid or expired refresh token.''))
   \<and> (verify t = Inr d \<and> session_get_user s (tok_id d) = Some u \<longrightarrow>
      refresh_access_token verify issue cfg new_uuid s t
        = Inr \<lparr> uid = new_uuid,
                access_token = issue (tok_id d) (access_token_expire_minutes cfg) False,
                refresh_token = Some t, token_type = ''bearer'' \<rparr>)"
proof -
  have gone: "session_get_user (s\<lparr>users := filter (\<lambda>u. user_id u \<noteq> tok_id d) (users s)\<rparr>)
      (tok_id d) = None"
    by (simp add: session_get_user_def find_None_conv list_ex_iff)
  have key: "session_get_user s (tok_id d) = Some u \<Longrightarrow> user_id u = tok_id d"
    by (rule session_get_user_key)
  show ?thesis
    using gone key by (simp add: refresh_access_token_def refresh_body_def)
qed

theorem refresh_access_token_rechecks_user_witness:
  "verify_access_token example_decode 500 ''access.u9'' = Inr (example_token ''u9'')
   \<and> session_get_user example_store ''u9'' = None
   \<and> refresh_access_token (verify_access_token example_decode 500) example_issue
        example_config ''uuid-1'' example_store ''access.u9''
        = Inl (HTTPException 401 ''Invalid or expired refresh token.'')
   \<and> verify_access_token example_decode 500 ''access.u1'' = Inr (example_token ''u1'')
   \<and> session_get_user example_store ''u1'' = Some example_admin
   \<and> refresh_access_token (verify_access_token example_decode 500) example_issue
        example_config ''uuid-1''
        (example_store\<lparr>users := filter (\<lambda>u. user_id u \<noteq> ''u1'') (users example_store)\<rparr>)
        ''access.u1''
        = Inl (HTTPException 401 ''Invalid or expired refresh token.'')
   \<and> refresh_access_token (verify_access_token example_decode 500) example_issue
        example_config ''uuid-1'' example_store ''access.u1''
        = Inr \<lparr> uid = ''uuid-1'', access_token = ''access.u1'',
                refresh_token = Some ''access.u1'', token_type = ''bearer'' \<rparr>"
proof -
  have v9: "verify_access_token example_decode 500 ''access.u9'' = Inr (example_token ''u9'')"
    by (simp add: verify_access_token_def example_decode_def example_token_def)
  have v1: "verify_access_token example_decode 500 ''access.u1'' = Inr (example_token ''u1'')"
    by (simp add: verify_access_token_def example_decode_def example_token_def)
  have g9: "session_get_user example_store (tok_id (example_token ''u9'')) = None"
    by (simp add: session_get_user_def example_defs)
  have g1: "session_get_user example_store (tok_id (example_token ''u1'')) = Some example_admin"
    by (simp add: session_get_user_def example_defs)
  note a = refresh_access_token_rechecks_user
    [of "verify_access_token example_decode 500" "''access.u9''" "example_token ''u9''"
        example_store example_issue example_config "''uuid-1''" example_admin]
  note b = refresh_access_token_rechecks_user
    [of "verify_access_token example_decode 500" "''access.u1''" "example_token ''u1''"
        example_store example_issue example_config "''uuid-1''" example_admin]
  have i: "example_issue (tok_id (example_token ''u1'')) n False = ''access.u1''" for n
    by (simp add: example_issue_def example_token_def)
  have t: "tok_id (example_token x) = x" for x
    by (simp add: example_token_def)
  show ?thesis
    using a b v9 v1 g9 g1 i by (simp add: t)
qed

text \<open>
  The token response of the login route, for any issuer: when \<open>authenticate_user\<close>
  returns a user for whom the MFA test of the route is false, the access token of the
  response is the token issued for the user with the access lifetime, and a refresh
  token is present exactly when \<open>remember_me\<close> was passed as true.
\<close>

lemma request_access_token_tokens:
  assumes "authenticate_user (form_username data) (form_password data) client_host s
             = (Inr user, s1)"
      and "\<not> (truthy_optstr (otpSecret user) \<and> otpVerified user)"
  shows "\<exists>r s2. request_access_token authenticate_user issue cfg otp_minutes
                   now new_uuid data client_host remember_me s = (Inr (Token r), s2)
           \<and> access_token r = issue (user_id user) (access_token_expire_minutes cfg) False
           \<and> (refresh_token r \<noteq> None) = (remember_me = Some True)
           \<and> (refresh_token r = None
               \<or> refresh_token r = Some (issue (user_id user)
                                           (refresh_token_expire_minutes cfg) True))"
  using assms
  by (cases remember_me) (auto simp: request_access_token_def Let_def)

text \<open>
  C6. With the issuer of the spec: when \<open>authenticate_user\<close> returns a user for whom
  the MFA test of the route is false (no OTP secret, or one that was never verified), the
  response is a token response whose access token is the signed access token issued for
  the user, which is not empty; a refresh token is present exactly when \<open>remember_me\<close> was
  passed as true (omitted, it is false), and is then the issued refresh token.
\<close>

theorem request_access_token_without_mfa:
  assumes "authenticate_user (form_username data) (form_password data) client_host s
             = (Inr user, s1)"
      and "\<not> (truthy_optstr (otpSecret user) \<and> otpVerified user)"
  shows "\<exists>r s2. request_access_token authenticate_user
                   (create_access_token sign clock unique_id) cfg otp_minutes
                   now new_uuid data client_host remember_me s = (Inr (Token r), s2)
           \<and> access_token r
               = create_access_token sign clock unique_id (user_id user)
                   (access_token_expire_minutes cfg) False
           \<and> access_token r \<noteq> []
           \<and> (refresh_token r \<noteq> None) = (remember_me = Some True)
           \<and> (refresh_token r = None
               \<or> refresh_token r
                   = Some (create_access_token sign clock unique_id (user_id user)
                             (refresh_token_expire_minutes cfg) True))"
proof -
  from request_access_token_tokens
    [where authenticate_user = authenticate_user and data = data and client_host = client_host
       and s = s and issue = "create_access_token sign clock unique_id" and cfg = cfg
       and otp_minutes = otp_minutes and now = now and new_uuid = new_uuid
       and remember_me = remember_me, OF assms]
  obtain r s2 where
    "request_access_token authenticate_user (create_access_token sign clock unique_id) cfg
       otp_minutes now new_uuid data client_host remember_me s = (Inr (Token r), s2)"
    "access_token r = create_access_token sign clock unique_id (user_id user)
                        (access_token_expire_minutes cfg) False"
    "(refresh_token r \<noteq> None) = (remember_me = Some True)"
    "refresh_token r = None
       \<or> refresh_token r = Some (create_access_token sign clock unique_id (user_id user)
                                   (refresh_token_expire_minutes cfg) True)"
    by blast
  moreover from this(2) have "access_token r \<noteq> []"
    by (simp add: create_access_token_not_empty)
  ultimately show ?thesis by blast
qed

theorem request_access_token_without_mfa_witness:
  "example_authenticate ''admin'' ''hash1'' None example_store = (Inr example_admin, example_store)
   \<and> \<not> (truthy_optstr (otpSecret example_admin) \<and> otpVerified example_admin)
   \<and> (\<exists>r s2. request_access_token example_authenticate
                (create_access_token example_sign 100 example_unique_id) example_config 5 100
                ''uuid-1'' \<lparr> form_username = ''admin'', form_password = ''hash1'' \<rparr> None
                (Some True) example_store = (Inr (Token r), s2)
           \<and> access_token r = ''u1.100.1900.access.id-a.sig''
           \<and> refresh_token r = Some ''u1.100.604900.refresh.id-r.sig'')
   \<and> (\<exists>r s2. request_access_token example_authenticate
                (create_access_token example_sign 100 example_unique_id) example_config 5 100
                ''uuid-1'' \<lparr> form_username = ''admin'', form_password = ''hash1'' \<rparr> None
                None example_store = (Inr (Token r), s2)
           \<and> access_token r = ''u1.100.1900.access.id-a.sig'' \<and> refresh_token r = None)"
proof -
  have a: "example_authenticate
      (form_username \<lparr> form_username = ''admin'', form_password = ''hash1'' \<rparr>)
      (form_password \<lparr> form_username = ''admin'', form_password = ''hash1'' \<rparr>) None example_store
      = (Inr example_admin, example_store)"
    by (simp add: example_authenticate_def select_user_by_username_def example_defs)
  have m: "\<not> (truthy_optstr (otpSecret example_admin) \<and> otpVerified example_admin)"
    by (simp add: truthy_optstr_def example_defs)
  have d: "digits 100 = ''100''" "digits 1900 = ''1900''" "digits 604900 = ''604900''"
    by (simp_all add: digits.simps)
  have i: "create_access_token example_sign 100 example_unique_id (user_id example_admin)
             (access_token_expire_minutes example_config) False = ''u1.100.1900.access.id-a.sig''"
          "create_access_token example_sign 100 example_unique_id (user_id example_admin)
             (refresh_token_expire_minutes example_config) True
             = ''u1.100.604900.refresh.id-r.sig''"
    by (simp_all add: create_access_token_def token_payload_def show_int_def d example_sign_def
        example_unique_id_def example_config_def auth_with_keys_def example_defs)
  note t = request_access_token_without_mfa
    [where authenticate_user = example_authenticate and sign = example_sign and clock = 100
       and unique_id = example_unique_id
       and data = "\<lparr> form_username = ''admin'', form_password = ''hash1'' \<rparr>"
       and cfg = example_config and otp_minutes = 5 and now = 100 and new_uuid = "''uuid-1''"
       and remember_me = "Some True", OF a m]
  note f = request_access_token_without_mfa
    [where authenticate_user = example_authenticate and sign = example_sign and clock = 100
       and unique_id = example_unique_id
       and data = "\<lparr> form_username = ''admin'', form_password = ''hash1'' \<rparr>"
       and cfg = example_config and otp_minutes = 5 and now = 100 and new_uuid = "''uuid-1''"
       and remember_me = None, OF a m]
  from t have t': "\<exists>r s2. request_access_token example_authenticate
                (create_access_token example_sign 100 example_unique_id) example_config 5 100
                ''uuid-1'' \<lparr> form_username = ''admin'', form_password = ''hash1'' \<rparr> None
                (Some True) example_store = (Inr (Token r), s2)
           \<and> access_token r = ''u1.100.1900.access.id-a.sig''
           \<and> refresh_token r = Some ''u1.100.604900.refresh.id-r.sig''"
    by (auto simp: i)
  from f have f': "\<exists>r s2. request_access_token example_authenticate
                (create_access_token example_sign 100 example_unique_id) example_config 5 100
                ''uuid-1'' \<lparr> form_username = ''admin'', form_password = ''hash1'' \<rparr> None
                None example_store = (Inr (Token r), s2)
           \<and> access_token r = ''u1.100.1900.access.id-a.sig'' \<and> refresh_token r = None"
    by (auto simp: i)
  from a have a': "example_authenticate ''admin'' ''hash1'' None example_store
                     = (Inr example_admin, example_store)"
    by simp
  show ?thesis using a' m t' f' by blast
qed

section \<open>Creating and inviting users\<close>

text \<open>
  The outcome of \<open>create_new_user\<close> in each case, which shows the order of its tests: a
  missing permission is answered with 403 whatever the rest of the request is; then a
  requester who is not found with 403; then a missing role with 400 whatever the role
  ranks are; then a role below the requester's with 403; only a request that passes all
  four reaches the call of \<open>create_user\<close>. The store is the same after every outcome.
\<close>

lemma create_new_user_outcomes:
  "(\<not> vup ''users:create'' s token \<longrightarrow>
      create_new_user vup new_user token s
        = (Inl (Http (HTTPException 403 ''You do not have permission to create a user.'')), s))
   \<and> (vup ''users:create'' s token \<and> session_get_user s (tok_id token) = None \<longrightarrow>
      create_new_user vup new_user token s
        = (Inl (Http (HTTPException 403 ''User not found.'')), s))
   \<and> (vup ''users:create'' s token \<and> session_get_user s (tok_id token) = Some user
        \<and> session_get_role s (uc_roleId new_user) = None \<longrightarrow>
      create_new_user vup new_user token s
        = (Inl (Http (HTTPException 400 ''Invalid role ID provided.'')), s))
   \<and> (vup ''users:create'' s token \<and> session_get_user s (tok_id token) = Some user
        \<and> session_get_role s (uc_roleId new_user) = Some role
        \<and> uc_roleId new_user < roleId user \<longrightarrow>
      create_new_user vup new_user token s
        = (Inl (Http (HTTPException 403
             ''You do not have permission to create a user with this role.'')), s))
   \<and> (vup ''users:create'' s token \<and> session_get_user s (tok_id token) = Some user
        \<and> session_get_role s (uc_roleId new_user) = Some role
        \<and> \<not> uc_roleId new_user < roleId user \<longrightarrow>
      create_new_user vup new_user token s = (Inl (Uncaught TypeError), s))
   \<and> snd (create_new_user vup new_user token s) = s"
  by (simp add: create_new_user_def split: option.splits)

lemma invite_user_outcomes:
  "(\<not> vup ''users:create'' s token \<longrightarrow>
      invite_user vup invited token s
        = (Inl (Http (HTTPException 403 ''You do not have permission to invite a user.'')), s))
   \<and> (vup ''users:create'' s token \<and> session_get_user s (tok_id token) = None \<longrightarrow>
      invite_user vup invited token s
        = (Inl (Http (HTTPException 403 ''User not found.'')), s))
   \<and> (vup ''users:create'' s token \<and> session_get_user s (tok_id token) = Some user
        \<and> session_get_role s (ui_roleId invited) = None \<longrightarrow>
      invite_user vup invited token s
        = (Inl (Http (HTTPException 400 ''Invalid role ID provided.'')), s))
   \<and> (vup ''users:create'' s token \<and> session_get_user s (tok_id token) = Some user
        \<and> session_get_role s (ui_roleId invited) = Some role
        \<and> ui_roleId invited < roleId user \<longrightarrow>
      invite_user vup invited token s
        = (Inl (Http (HTTPException 403
             ''You do not have permission to invite a user with this role.'')), s))
   \<and> (vup ''users:create'' s token \<and> session_get_user s (tok_id token) = Some user
        \<and> session_get_role s (ui_roleId invited) = Some role
        \<and> \<not> ui_roleId invited < roleId user \<longrightarrow>
      invite_user vup invited token s = (Inl (Uncaught TypeError), s))
   \<and> snd (invite_user vup invited token s) = s"
  by (simp add: invite_user_def split: option.splits)

text \<open>
  C5. The requester \<open>u2\<close> has role 2 and holds \<open>users:create\<close>; the request names the
  existing role 3, a free and valid username and a valid password, so the permission
  test, the role lookup and the rank test all pass. The route then fails with
  \<open>TypeError\<close> at its call of \<open>create_user\<close> and the store has no new user.
  \<open>create_user\<close> itself, given the request and the store, appends the user's row.
\<close>

theorem create_new_user_never_creates:
  "verify_user_permission example_permissions ''users:create'' example_store (example_token ''u2'')
   \<and> session_get_user example_store ''u2'' = Some example_principal
   \<and> roleId example_principal = 2
   \<and> session_get_role example_store 3
       = Some \<lparr> role_id = 3, description = ''third role'', modifiable = True \<rparr>
   \<and> create_new_user (verify_user_permission example_permissions)
        (example_request ''teacher_1'' 3 ''Passw0rdX'') (example_token ''u2'') example_store
        = (Inl (Uncaught TypeError), example_store)
   \<and> create_user example_hash ''u3'' (example_request ''teacher_1'' 3 ''Passw0rdX'')
        example_store
        = (Inr (User_init ''u3'' ''teacher_1'' ''hashed:Passw0rdX'' 3),
           \<lparr> users = [example_admin, example_principal,
                       User_init ''u3'' ''teacher_1'' ''hashed:Passw0rdX'' 3],
             roles = example_roles \<rparr>)"
  by (simp add: create_new_user_def create_user_def verify_user_permission_def
      session_get_user_def session_get_role_def select_user_by_username_def session_add_def
      Let_def example_validations example_defs)

text \<open>
  C3, as the routes have it. For a requester who passes the permission check and is
  found in the store, in the create route and in the invite route: a requested role that
  is unknown is answered with 400, whatever its rank; a requested role that is known is
  answered with 403 exactly when its id is below the requester's, and then the store is
  as it was.
\<close>

theorem create_and_invite_role_rank:
  assumes "vup ''users:create'' s token"
      and "session_get_user s (tok_id token) = Some user"
  shows
  "(session_get_role s (uc_roleId new_user) = None \<longrightarrow>
      create_new_user vup new_user token s
        = (Inl (Http (HTTPException 400 ''Invalid role ID provided.'')), s))
   \<and> (session_get_role s (uc_roleId new_user) \<noteq> None \<and> uc_roleId new_user < roleId user \<longrightarrow>
      create_new_user vup new_user token s
        = (Inl (Http (HTTPException 403
             ''You do not have permission to create a user with this role.'')), s))
   \<and> (session_get_role s (uc_roleId new_user) \<noteq> None \<and> roleId user \<le> uc_roleId new_user \<longrightarrow>
      (\<forall>d. fst (create_new_user vup new_user token s) \<noteq> Inl (Http (HTTPException 403 d))))
   \<and> (session_get_role s (ui_roleId invited) = None \<longrightarrow>
      invite_user vup invited token s
        = (Inl (Http (HTTPException 400 ''Invalid role ID provided.'')), s))
   \<and> (session_get_role s (ui_roleId invited) \<noteq> None \<and> ui_roleId invited < roleId user \<longrightarrow>
      invite_user vup invited token s
        = (Inl (Http (HTTPException 403
             ''You do not have permission to invite a user with this role.'')), s))
   \<and> (session_get_role s (ui_roleId invited) \<noteq> None \<and> roleId user \<le> ui_roleId invited \<longrightarrow>
      (\<forall>d. fst (invite_user vup invited token s) \<noteq> Inl (Http (HTTPException 403 d))))"
  using assms
  by (auto simp: create_new_user_def invite_user_def)

theorem create_and_invite_role_rank_witness:
  "verify_user_permission example_permissions ''users:create'' example_store (example_token ''u2'')
   \<and> session_get_user example_store (tok_id (example_token ''u2'')) = Some example_principal
   \<and> roleId example_principal = 2
   \<and> session_get_role example_store 0 = None
   \<and> create_new_user (verify_user_permission example_permissions)
        (example_request ''teacher_1'' 0 ''Passw0rdX'') (example_token ''u2'') example_store
        = (Inl (Http (HTTPException 400 ''Invalid role ID provided.'')), example_store)
   \<and> invite_user (verify_user_permission example_permissions)
        (example_invite ''teacher_1'' 0) (example_token ''u2'') example_store
        = (Inl (Http (HTTPException 400 ''Invalid role ID provided.'')), example_store)
   \<and> session_get_role example_store 1 \<noteq> None
   \<and> create_new_user (verify_user_permission example_permissions)
        (example_request ''teacher_1'' 1 ''Passw0rdX'') (example_token ''u2'') example_store
        = (Inl (Http (HTTPException 403
             ''You do not have permission to create a user with this role.'')), example_store)
   \<and> invite_user (verify_user_permission example_permissions)
        (example_invite ''teacher_1'' 1) (example_token ''u2'') example_store
        = (Inl (Http (HTTPException 403
             ''You do not have permission to invite a user with this role.'')), example_store)
   \<and> session_get_role example_store 2 \<noteq> None
   \<and> fst (create_new_user (verify_user_permission example_permissions)
        (example_request ''teacher_1'' 2 ''Passw0rdX'') (example_token ''u2'') example_store)
        \<noteq> Inl (Http (HTTPException 403
             ''You do not have permission to create a user with this role.''))
   \<and> fst (invite_user (verify_user_permission example_permissions)
        (example_invite ''teacher_1'' 2) (example_token ''u2'') example_store)
        \<noteq> Inl (Http (HTTPException 403
             ''You do not have permission to invite a user with this role.''))"
proof -
  have p2: "verify_user_permission example_permissions ''users:create'' example_store
              (example_token ''u2'')"
    by (simp add: verify_user_permission_def session_get_user_def example_defs)
  have g2: "session_get_user example_store (tok_id (example_token ''u2'')) = Some example_principal"
    by (simp add: session_get_user_def example_defs)
  have r0: "session_get_role example_store 0 = None"
    and r1: "session_get_role example_store 1 \<noteq> None"
    and r2: "session_get_role example_store 2 \<noteq> None"
    by (simp_all add: session_get_role_def example_defs)
  have rk: "roleId example_principal = 2"
    by (simp add: example_defs)
  have rq: "uc_roleId (example_request n r p) = r" for n r p
    by (simp add: example_request_def)
  have iq: "ui_roleId (example_invite n r) = r" for n r
    by (simp add: example_invite_def)
  note a = create_and_invite_role_rank
    [where vup = "verify_user_permission example_permissions" and s = example_store
       and token = "example_token ''u2''" and user = example_principal
       and new_user = "example_request ''teacher_1'' 0 ''Passw0rdX''"
       and invited = "example_invite ''teacher_1'' 0", OF p2 g2]
  note b = create_and_invite_role_rank
    [where vup = "verify_user_permission example_permissions" and s = example_store
       and token = "example_token ''u2''" and user = example_principal
       and new_user = "example_request ''teacher_1'' 1 ''Passw0rdX''"
       and invited = "example_invite ''teacher_1'' 1", OF p2 g2]
  note c = create_and_invite_role_rank
    [where vup = "verify_user_permission example_permissions" and s = example_store
       and token = "example_token ''u2''" and user = example_principal
       and new_user = "example_request ''teacher_1'' 2 ''Passw0rdX''"
       and invited = "example_invite ''teacher_1'' 2", OF p2 g2]
  show ?thesis
    using a b c p2 g2 r0 r1 r2 rk
    by (simp add: rq iq)
qed

text \<open>
  The claim C3 as it is written fails for the requester \<open>u1\<close> of role 1, who holds
  \<open>users:create\<close>: the requests for the unknown role 0, which is below the requester's,
  are answered with 400 and not with 403, in the create route and in the invite route.
\<close>

theorem create_new_user_role_rank_counterexample:
  "verify_user_permission example_permissions ''users:create'' example_store (example_token ''u1'')
   \<and> session_get_user example_store ''u1'' = Some example_admin
   \<and> roleId example_admin = 1
   \<and> create_new_user (verify_user_permission example_permissions)
        (example_request ''teacher_1'' 0 ''Passw0rdX'') (example_token ''u1'') example_store
        = (Inl (Http (HTTPException 400 ''Invalid role ID provided.'')), example_store)
   \<and> invite_user (verify_user_permission example_permissions)
        (example_invite ''teacher_1'' 0) (example_token ''u1'') example_store
        = (Inl (Http (HTTPException 400 ''Invalid role ID provided.'')), example_store)"
  by (simp add: create_new_user_def invite_user_def verify_user_permission_def
      session_get_user_def session_get_role_def example_defs)

section \<open>OAuth: code exchange and unlinking\<close>

text \<open>
  The claim C7 as it is written fails: a timeout of the token request leaves
  \<open>exchange_code_for_token\<close> as the exception it is, as does a timeout of the profile
  request; a 502 reply whose body is not JSON raises \<open>JSONDecodeError\<close>; a 503 reply
  with a JSON body is returned to the caller as if it were the user's profile.
\<close>

theorem exchange_code_for_token_counterexample:
  "exchange_code_for_token example_httpx_timeout example_adapter ''code'' = Inl TimeoutException
   \<and> exchange_code_for_token example_httpx_slow_profile example_adapter ''code''
       = Inl TimeoutException
   \<and> exchange_code_for_token example_httpx_bad_gateway example_adapter ''code''
       = Inl JSONDecodeError
   \<and> exchange_code_for_token example_httpx_unavailable example_adapter ''code''
       = Inr (JObj [(''error'', JStr ''unavailable'')])"
  by (simp add: exchange_code_for_token_def example_httpx_timeout_def
      example_httpx_slow_profile_def example_httpx_bad_gateway_def
      example_httpx_unavailable_def example_adapter_def response_json_def json_get_def)

text \<open>
  C7, as the adapters have it. An exception of either request reaches the caller
  unchanged. A body that does not parse raises \<open>JSONDecodeError\<close>, and a parsed body of
  the token reply that is not an object raises \<open>AttributeError\<close>. No status code is
  read: when the body of the token reply is an object, the profile is requested with the
  value found under \<open>access_token\<close>, \<open>None\<close> when the key is absent, and the parsed body of
  the profile reply, of any JSON type, is the result, whatever the two status codes are.
\<close>

theorem exchange_code_for_token_outcomes:
  "(httpx (token_request adapter code) = Raised e \<longrightarrow>
      exchange_code_for_token httpx adapter code = Inl e)
   \<and> (httpx (token_request adapter code) = Response status None \<longrightarrow>
      exchange_code_for_token httpx adapter code = Inl JSONDecodeError)
   \<and> (httpx (token_request adapter code) = Response status (Some j)
        \<and> (j = JNull \<or> j = JBool b \<or> j = JNum n \<or> j = JStr x \<or> j = JArr js) \<longrightarrow>
      exchange_code_for_token httpx adapter code = Inl AttributeError)
   \<and> (httpx (token_request adapter code) = Response status (Some (JObj kvs))
        \<and> httpx (profile_request adapter
                    (case map_of kvs ''access_token'' of None \<Rightarrow> JNull | Some v \<Rightarrow> v))
            = Raised e \<longrightarrow>
      exchange_code_for_token httpx adapter code = Inl e)
   \<and> (httpx (token_request adapter code) = Response status (Some (JObj kvs))
        \<and> httpx (profile_request adapter
                    (case map_of kvs ''access_token'' of None \<Rightarrow> JNull | Some v \<Rightarrow> v))
            = Response status' None \<longrightarrow>
      exchange_code_for_token httpx adapter code = Inl JSONDecodeError)
   \<and> (httpx (token_request adapter code) = Response status (Some (JObj kvs))
        \<and> httpx (profile_request adapter
                    (case map_of kvs ''access_token'' of None \<Rightarrow> JNull | Some v \<Rightarrow> v))
            = Response status' (Some profile) \<longrightarrow>
      exchange_code_for_token httpx adapter code = Inr profile)"
  by (auto simp: exchange_code_for_token_def response_json_def json_get_def
      split: option.splits)

theorem exchange_code_for_token_outcomes_witness:
  "example_httpx_timeout (token_request example_adapter ''code'') = Raised TimeoutException
   \<and> exchange_code_for_token example_httpx_timeout example_adapter ''code''
       = Inl TimeoutException
   \<and> example_httpx_bad_gateway (token_request example_adapter ''code'') = Response 502 None
   \<and> exchange_code_for_token example_httpx_bad_gateway example_adapter ''code''
       = Inl JSONDecodeError
   \<and> example_httpx_not_object (token_request example_adapter ''code'')
       = Response 500 (Some (JArr []))
   \<and> exchange_code_for_token example_httpx_not_object example_adapter ''code''
       = Inl AttributeError
   \<and> example_httpx_slow_profile (token_request example_adapter ''code'')
       = Response 200 (Some (JObj [(''access_token'', JStr ''at-1'')]))
   \<and> example_httpx_slow_profile (profile_request example_adapter (JStr ''at-1''))
       = Raised TimeoutException
   \<and> exchange_code_for_token example_httpx_slow_profile example_adapter ''code''
       = Inl TimeoutException
   \<and> example_httpx_unavailable (token_request example_adapter ''code'')
       = Response 503 (Some (JObj [(''error'', JStr ''unavailable'')]))
   \<and> example_httpx_unavailable (profile_request example_adapter JNull)
       = Response 503 (Some (JObj [(''error'', JStr ''unavailable'')]))
   \<and> exchange_code_for_token example_httpx_unavailable example_adapter ''code''
       = Inr (JObj [(''error'', JStr ''unavailable'')])"
proof -
  have t: "example_httpx_timeout (token_request example_adapter ''code'')
             = Raised TimeoutException"
    by (simp add: example_httpx_timeout_def)
  have g: "example_httpx_bad_gateway (token_request example_adapter ''code'')
             = Response 502 None"
    by (simp add: example_httpx_bad_gateway_def)
  have o: "example_httpx_not_object (token_request example_adapter ''code'')
             = Response 500 (Some (JArr []))"
    by (simp add: example_httpx_not_object_def)
  have s1: "example_httpx_slow_profile (token_request example_adapter ''code'')
             = Response 200 (Some (JObj [(''access_token'', JStr ''at-1'')]))"
    by (simp add: example_httpx_slow_profile_def example_adapter_def)
  have s2: "example_httpx_slow_profile (profile_request example_adapter (JStr ''at-1''))
             = Raised TimeoutException"
    by (simp add: example_httpx_slow_profile_def example_adapter_def)
  have u1: "example_httpx_unavailable (token_request example_adapter ''code'')
             = Response 503 (Some (JObj [(''error'', JStr ''unavailable'')]))"
    by (simp add: example_httpx_unavailable_def)
  have u2: "example_httpx_unavailable (profile_request example_adapter JNull)
             = Response 503 (Some (JObj [(''error'', JStr ''unavailable'')]))"
    by (simp add: example_httpx_unavailable_def)
  note a = exchange_code_for_token_outcomes
    [where httpx = example_httpx_timeout and adapter = example_adapter and code = "''code''"
       and e = TimeoutException]
  note b = exchange_code_for_token_outcomes
    [where httpx = example_httpx_bad_gateway and adapter = example_adapter
       and code = "''code''" and status = 502]
  note n = exchange_code_for_token_outcomes
    [where httpx = example_httpx_not_object and adapter = example_adapter
       and code = "''code''" and status = 500 and j = "JArr []" and js = "[]"]
  note c = exchange_code_for_token_outcomes
    [where httpx = example_httpx_slow_profile and adapter = example_adapter
       and code = "''code''" and status = 200 and e = TimeoutException
       and kvs = "[(''access_token'', JStr ''at-1'')]"]
  note d = exchange_code_for_token_outcomes
    [where httpx = example_httpx_unavailable and adapter = example_adapter
       and code = "''code''" and status = 503 and status' = 503
       and kvs = "[(''error'', JStr ''unavailable'')]"
       and profile = "JObj [(''error'', JStr ''unavailable'')]"]
  from a t have A: "exchange_code_for_token example_httpx_timeout example_adapter ''code''
       = Inl TimeoutException"
    by blast
  from b g have B: "exchange_code_for_token example_httpx_bad_gateway example_adapter ''code''
       = Inl JSONDecodeError"
    by blast
  from n o have N: "exchange_code_for_token example_httpx_not_object example_adapter ''code''
       = Inl AttributeError"
    by blast
  from c s1 s2 have C: "exchange_code_for_token example_httpx_slow_profile example_adapter ''code''
       = Inl TimeoutException"
    by simp
  from d u1 u2 have D: "exchange_code_for_token example_httpx_unavailable example_adapter ''code''
       = Inr (JObj [(''error'', JStr ''unavailable'')])"
    by simp
  show ?thesis
    using t A g B o N s1 s2 C u1 u2 D by simp
qed

text \<open>
  The claim C8 as it is written fails where the provider is not configured: the route
  answers 501 before it looks for the user, so an existing user keeps the linkage and a
  missing user is not answered with 404.
\<close>

theorem oauth_unlink_counterexample:
  "session_get_user example_store ''u2'' = Some example_principal
   \<and> oauthLinkedGoogleId example_principal = Some ''g-42''
   \<and> oauth_unlink_google None (example_token ''u2'') example_store
       = (Inl (HTTPException 501 ''Google OAuth is not configured.''), example_store)
   \<and> session_get_user example_store ''u9'' = None
   \<and> oauth_unlink_google None (example_token ''u9'') example_store
       = (Inl (HTTPException 501 ''Google OAuth is not configured.''), example_store)"
  by (simp add: oauth_unlink_google_def session_get_user_def example_defs)

text \<open>
  C8, as the routes have it. With the provider's adapter configured: for an existing
  user the route writes the user's row with that provider's linkage id set to \<open>None\<close> and
  every other field as it was; the row is what a lookup of the user then returns, the
  lookup of every other id and the roles are as before. For a missing user the route
  answers 404 and the store is as before. Without the adapter the route answers 501 and
  the store is as before.
\<close>

theorem oauth_unlink_frame:
  "(session_get_user s (tok_id token) = Some user \<longrightarrow>
      oauth_unlink_google (Some adapter) token s
        = (Inr ''Google account unlinked successfully.'',
           session_commit user (user\<lparr>oauthLinkedGoogleId := None\<rparr>) s)
      \<and> oauth_unlink_microsoft (Some adapter) token s
        = (Inr ''Microsoft account unlinked successfully.'',
           session_commit user (user\<lparr>oauthLinkedMicrosoftId := None\<rparr>) s)
      \<and> oauth_unlink_facebook (Some adapter) token s
        = (Inr ''Facebook account unlinked successfully.'',
           session_commit user (user\<lparr>oauthLinkedFacebookId := None\<rparr>) s)
      \<and> session_get_user (session_commit user (user\<lparr>oauthLinkedGoogleId := None\<rparr>) s)
            (tok_id token) = Some (user\<lparr>oauthLinkedGoogleId := None\<rparr>)
      \<and> session_get_user (session_commit user (user\<lparr>oauthLinkedMicrosoftId := None\<rparr>) s)
            (tok_id token) = Some (user\<lparr>oauthLinkedMicrosoftId := None\<rparr>)
      \<and> session_get_user (session_commit user (user\<lparr>oauthLinkedFacebookId := None\<rparr>) s)
            (tok_id token) = Some (user\<lparr>oauthLinkedFacebookId := None\<rparr>))
   \<and> (session_get_user s (tok_id token) = Some user \<and> other \<noteq> tok_id token \<longrightarrow>
      session_get_user (snd (oauth_unlink_google (Some adapter) token s)) other
        = session_get_user s other
      \<and> session_get_user (snd (oauth_unlink_microsoft (Some adapter) token s)) other
        = session_get_user s other
      \<and> session_get_user (snd (oauth_unlink_facebook (Some adapter) token s)) other
        = session_get_user s other)
   \<and> roles (snd (oauth_unlink_google (Some adapter) token s)) = roles s
   \<and> roles (snd (oauth_unlink_microsoft (Some adapter) token s)) = roles s
   \<and> roles (snd (oauth_unlink_facebook (Some adapter) token s)) = roles s
   \<and> (session_get_user s (tok_id token) = None \<longrightarrow>
      oauth_unlink_google (Some adapter) token s
        = (Inl (HTTPException 404 ''User not found.''), s)
      \<and> oauth_unlink_microsoft (Some adapter) token s
        = (Inl (HTTPException 404 ''User not found.''), s)
      \<and> oauth_unlink_facebook (Some adapter) token s
        = (Inl (HTTPException 404 ''User not found.''), s))
   \<and> oauth_unlink_google None token s
        = (Inl (HTTPException 501 ''Google OAuth is not configured.''), s)
   \<and> oauth_unlink_microsoft None token s
        = (Inl (HTTPException 501 ''Microsoft OAuth is not configured.''), s)
   \<and> oauth_unlink_facebook None token s
        = (Inl (HTTPException 501 ''Facebook OAuth is not configured.''), s)"
proof -
  have same: "session_get_user (session_commit user u' s) (tok_id token) = Some u'"
    if "session_get_user s (tok_id token) = Some user" "user_id u' = user_id user" for u'
    using that by (rule session_get_user_commit_same)
  have oth: "session_get_user (session_commit user u' s) other = session_get_user s other"
    if "session_get_user s (tok_id token) = Some user" "other \<noteq> tok_id token"
       "user_id u' = user_id user" for u'
    using that session_get_user_key [of s "tok_id token" user]
    by (intro session_get_user_commit_other) simp_all
  show ?thesis
    using same oth
    by (auto simp: oauth_unlink_google_def oauth_unlink_microsoft_def
        oauth_unlink_facebook_def roles_session_commit split: option.splits)
qed

theorem oauth_unlink_frame_witness:
  "session_get_user example_store (tok_id (example_token ''u2'')) = Some example_principal
   \<and> oauth_unlink_google (Some example_adapter) (example_token ''u2'') example_store
       = (Inr ''Google account unlinked successfully.'',
          \<lparr> users = [example_admin, example_principal\<lparr>oauthLinkedGoogleId := None\<rparr>],
            roles = example_roles \<rparr>)
   \<and> oauthLinkedFacebookId (example_principal\<lparr>oauthLinkedGoogleId := None\<rparr>) = Some ''f-7''
   \<and> oauthLinkedMicrosoftId (example_principal\<lparr>oauthLinkedGoogleId := None\<rparr>) = Some ''m-9''
   \<and> ''u1'' \<noteq> tok_id (example_token ''u2'')
   \<and> session_get_user (snd (oauth_unlink_google (Some example_adapter) (example_token ''u2'')
        example_store)) ''u1'' = Some example_admin
   \<and> session_get_user example_store (tok_id (example_token ''u9'')) = None
   \<and> oauth_unlink_facebook (Some example_adapter) (example_token ''u9'') example_store
       = (Inl (HTTPException 404 ''User not found.''), example_store)"
proof -
  have g2: "session_get_user example_store (tok_id (example_token ''u2'')) = Some example_principal"
    by (simp add: session_get_user_def example_defs)
  have g1: "session_get_user example_store ''u1'' = Some example_admin"
    by (simp add: session_get_user_def example_defs)
  have g9: "session_get_user example_store (tok_id (example_token ''u9'')) = None"
    by (simp add: session_get_user_def example_defs)
  have ne: "''u1'' \<noteq> tok_id (example_token ''u2'')"
    by (simp add: example_token_def)
  have cm: "session_commit example_principal (example_principal\<lparr>oauthLinkedGoogleId := None\<rparr>)
              example_store
            = \<lparr> users = [example_admin, example_principal\<lparr>oauthLinkedGoogleId := None\<rparr>],
                roles = example_roles \<rparr>"
    by (simp add: session_commit_def example_defs)
  have fl: "oauthLinkedFacebookId (example_principal\<lparr>oauthLinkedGoogleId := None\<rparr>) = Some ''f-7''"
           "oauthLinkedMicrosoftId (example_principal\<lparr>oauthLinkedGoogleId := None\<rparr>) = Some ''m-9''"
    by (simp_all add: example_defs)
  note a = oauth_unlink_frame
    [where s = example_store and token = "example_token ''u2''" and user = example_principal
       and adapter = example_adapter and other = "''u1''"]
  note b = oauth_unlink_frame
    [where s = example_store and token = "example_token ''u9''" and user = example_principal
       and adapter = example_adapter and other = "''u1''"]
  from a g2 cm have A: "oauth_unlink_google (Some example_adapter) (example_token ''u2'') example_store
       = (Inr ''Google account unlinked successfully.'',
          \<lparr> users = [example_admin, example_principal\<lparr>oauthLinkedGoogleId := None\<rparr>],
            roles = example_roles \<rparr>)"
    by simp
  from a g2 ne have "session_get_user (snd (oauth_unlink_google (Some example_adapter)
        (example_token ''u2'') example_store)) ''u1'' = session_get_user example_store ''u1''"
    by blast
  with g1 have B: "session_get_user (snd (oauth_unlink_google (Some example_adapter)
        (example_token ''u2'') example_store)) ''u1'' = Some example_admin"
    by (simp only:)
  from b g9 have C: "oauth_unlink_facebook (Some example_adapter) (example_token ''u9'') example_store
       = (Inl (HTTPException 404 ''User not found.''), example_store)"
    by simp
  show ?thesis
    using g2 A fl ne B g9 C by blast
qed

end
